theory Spec2Isabelle
  imports Main
begin

section \<open>The hivestatus role of docs/xhive/misc.py\<close>

text \<open>
  The module registers one inline role, \<^verbatim>\<open>hivestatus\<close>, with a documentation builder.
  It has a module-level dictionary \<^verbatim>\<open>hive_colours\<close>, a role function that turns the
  text of the role into a node, two pairs of visit/depart callbacks (HTML and LaTeX),
  and \<^verbatim>\<open>load_colours_if_needed\<close>, which fills the dictionary from a JSON file.

  Python exceptions are values of \<open>error\<close>; a function that can raise returns
  \<open>error + 'a\<close> with \<open>Inl\<close> for the exception. The functions that mutate the
  module-level dictionary take the state and return it, also when they raise: what
  was stored before the exception stays stored.
\<close>

subsection \<open>Python values\<close>

text \<open>The built-in exception classes that the module's operations can raise.\<close>

datatype error = KeyError | ValueError | TypeError | IndexError | OSError

text \<open>
  What \<^verbatim>\<open>json.load\<close> returns: \<^verbatim>\<open>None\<close>, a bool, an int, a float, a str, a list or
  a dict with str keys. A dict is an association list in insertion order; the keys of
  a Python dict are distinct. The module never inspects a float, so floats are an
  opaque type. Strings are lists of \<open>char\<close>, that is of the code points 0 to 255.
\<close>

typedecl pyfloat

datatype json =
    JNull
  | JBool bool
  | JInt int
  | JFloat pyfloat
  | JStr string
  | JArr "json list"
  | JObj "(string \<times> json) list"

text \<open>
  The keys that the module can store in \<^verbatim>\<open>hive_colours\<close>: a str (from iterating a
  dict) or an int (from iterating a list; \<^verbatim>\<open>True\<close> and \<^verbatim>\<open>False\<close> are the keys 1 and 0).
\<close>

datatype pykey = KStr string | KInt int

type_synonym colours = "pykey \<rightharpoonup> json"

text \<open>\<^verbatim>\<open>xs[i]\<close> on a list: a negative index counts from the end, out of range raises.\<close>

definition list_index :: "'a list \<Rightarrow> int \<Rightarrow> error + 'a" where
  "list_index xs i =
     (let n = int (length xs); j = (if i < 0 then i + n else i)
      in if 0 \<le> j \<and> j < n then Inr (xs ! nat j) else Inl IndexError)"

text \<open>
  \<^verbatim>\<open>obj[k]\<close> for a str \<open>k\<close>: a dict looks the key up; a list and a str accept
  integer indices only, the other values are not subscriptable.
\<close>

fun subscript_str :: "json \<Rightarrow> string \<Rightarrow> error + json" where
  "subscript_str (JObj kvs) k = (case map_of kvs k of None \<Rightarrow> Inl KeyError | Some v \<Rightarrow> Inr v)"
| "subscript_str _ k = Inl TypeError"

subsection \<open>The role function\<close>

text \<open>\<^verbatim>\<open>text.index(c)\<close> for a one-character \<open>c\<close>: the first position, or ValueError.\<close>

fun str_index :: "string \<Rightarrow> char \<Rightarrow> error + nat" where
  "str_index [] c = Inl ValueError"
| "str_index (x # xs) c =
     (if x = c then Inr 0
      else (case str_index xs c of Inl e \<Rightarrow> Inl e | Inr i \<Rightarrow> Inr (Suc i)))"

text \<open>\<^verbatim>\<open>text[i:j]\<close> and \<^verbatim>\<open>text[i:]\<close> for indices that are not negative.\<close>

definition slice :: "nat \<Rightarrow> nat \<Rightarrow> string \<Rightarrow> string" where
  "slice i j s = drop i (take j s)"

definition slice_from :: "nat \<Rightarrow> string \<Rightarrow> string" where
  "slice_from i s = drop i s"

text \<open>
  \<^verbatim>\<open>str.isspace\<close> on the code points 0 to 255: tab, line feed, vertical tab, form
  feed, carriage return, the four separators 28 to 31, space, next line (133) and
  no-break space (160). \<^verbatim>\<open>strip()\<close> removes them from both ends.
\<close>

definition isspace :: "char \<Rightarrow> bool" where
  "isspace c = (of_char c \<in> {9, 10, 11, 12, 13, 28, 29, 30, 31, 32, 133, 160 :: nat})"

definition strip :: "string \<Rightarrow> string" where
  "strip s = rev (dropWhile isspace (rev (dropWhile isspace s)))"

text \<open>
  The node class \<^verbatim>\<open>hivestatus(nodes.Element)\<close>: its \<^verbatim>\<open>status\<close> attribute and its list
  of children, which are text nodes.
\<close>

datatype docnode = Text string

record hivestatus =
  status :: string
  children :: "docnode list"

text \<open>
  \<^verbatim>\<open>hivestatus_role(name, rawtext, text, lineno, inliner, options, content)\<close> reads
  only \<^verbatim>\<open>text\<close>. It returns the list of nodes and the list of system messages.
\<close>

definition hivestatus_role :: "string \<Rightarrow> error + (hivestatus list \<times> string list)" where
  "hivestatus_role text =
     (case str_index text (CHR ''>'') of
        Inl e \<Rightarrow> Inl e
      | Inr i \<Rightarrow>
          let status = slice 1 i text in
          (case str_index text (CHR ''>'') of
             Inl e \<Rightarrow> Inl e
           | Inr j \<Rightarrow>
               let text' = strip (slice_from (j + 1) text);
                   hivestatus_node = \<lparr>status = status, children = [] @ [Text text']\<rparr>
               in Inr ([hivestatus_node], [])))"

subsection \<open>Loading the colours\<close>

text \<open>
  What the module reads from outside: \<^verbatim>\<open>os.environ\<close>, \<^verbatim>\<open>os.path.sep\<close>, the files
  that \<^verbatim>\<open>open(path, "r")\<close> can read with their content, \<^verbatim>\<open>json.load\<close> and the
  built-in \<^verbatim>\<open>str\<close> (used by \<^verbatim>\<open>%s\<close> on a value that is not a str).
\<close>

record world =
  environ :: "string \<rightharpoonup> string"
  path_sep :: string
  files :: "string \<rightharpoonup> string"
  json_load :: "string \<Rightarrow> error + json"
  py_str :: "json \<Rightarrow> string"

text \<open>
  The module's state: the dictionary \<^verbatim>\<open>hive_colours\<close>, and a log of the paths given
  to \<^verbatim>\<open>open\<close> (not in the source: it makes the file reads countable).
\<close>

record pystate =
  hive_colours :: colours
  opened :: "string list"

text \<open>
  Lines 43-44 and 47-48, for a key \<open>s\<close> and the value \<open>v\<close> of \<^verbatim>\<open>as_hash[s]\<close>:
  \<^verbatim>\<open>if isinstance(v, dict): hive_colours[s] = v["Colour"]\<close>.
\<close>

fun store_colour :: "pykey \<Rightarrow> json \<Rightarrow> colours \<Rightarrow> (error + unit) \<times> colours" where
  "store_colour s (JObj r) t =
     (case map_of r ''Colour'' of
        None \<Rightarrow> (Inl KeyError, t)
      | Some c \<Rightarrow> (Inr (), t(s \<mapsto> c)))"
| "store_colour s _ t = (Inr (), t)"

text \<open>The loop over a dict: \<open>s\<close> runs over the keys, \<^verbatim>\<open>as_hash[s]\<close> is a lookup.\<close>

fun for_keys :: "(string \<times> json) list \<Rightarrow> string list \<Rightarrow> colours \<Rightarrow> (error + unit) \<times> colours" where
  "for_keys d [] t = (Inr (), t)"
| "for_keys d (s # ss) t =
     (case map_of d s of
        None \<Rightarrow> (Inl KeyError, t)
      | Some v \<Rightarrow>
          (case store_colour (KStr s) v t of
             (Inl e, t') \<Rightarrow> (Inl e, t')
           | (Inr u, t') \<Rightarrow> for_keys d ss t'))"

text \<open>
  The loop over a list: \<open>s\<close> runs over the elements, and \<^verbatim>\<open>as_hash[s]\<close> needs an
  int or a bool.
\<close>

fun item_index :: "json \<Rightarrow> int option" where
  "item_index (JInt i) = Some i"
| "item_index (JBool b) = Some (if b then 1 else 0)"
| "item_index _ = None"

fun for_items :: "json list \<Rightarrow> json list \<Rightarrow> colours \<Rightarrow> (error + unit) \<times> colours" where
  "for_items xs [] t = (Inr (), t)"
| "for_items xs (s # ss) t =
     (case item_index s of
        None \<Rightarrow> (Inl TypeError, t)
      | Some i \<Rightarrow>
          (case list_index xs i of
             Inl e \<Rightarrow> (Inl e, t)
           | Inr v \<Rightarrow>
               (case store_colour (KInt i) v t of
                  (Inl e, t') \<Rightarrow> (Inl e, t')
                | (Inr u, t') \<Rightarrow> for_items xs ss t')))"

text \<open>
  \<^verbatim>\<open>for s in as_hash: ...\<close> (lines 42-44 and 46-48) for whatever value the
  configuration holds there. Iterating a str gives one-character strs, which are no
  index of a str; \<^verbatim>\<open>None\<close>, bools and numbers are not iterable.
\<close>

fun colour_loop :: "json \<Rightarrow> colours \<Rightarrow> (error + unit) \<times> colours" where
  "colour_loop (JObj d) t = for_keys d (map fst d) t"
| "colour_loop (JArr xs) t = for_items xs xs t"
| "colour_loop (JStr cs) t = (if cs = [] then (Inr (), t) else (Inl TypeError, t))"
| "colour_loop _ t = (Inl TypeError, t)"

text \<open>\<^verbatim>\<open>conf_content["Graph"]["Node"][k]\<close> (lines 41 and 45).\<close>

definition graph_node :: "json \<Rightarrow> string \<Rightarrow> error + json" where
  "graph_node conf_content k =
     (case subscript_str conf_content ''Graph'' of
        Inl e \<Rightarrow> Inl e
      | Inr g \<Rightarrow>
          (case subscript_str g ''Node'' of
             Inl e \<Rightarrow> Inl e
           | Inr n \<Rightarrow> subscript_str n k))"

text \<open>Lines 41-48: the body of the \<^verbatim>\<open>with\<close> block after \<^verbatim>\<open>json.load\<close>.\<close>

definition load_tables :: "json \<Rightarrow> colours \<Rightarrow> (error + unit) \<times> colours" where
  "load_tables conf_content t =
     (case graph_node conf_content ''AnalysisStatus'' of
        Inl e \<Rightarrow> (Inl e, t)
      | Inr as_hash \<Rightarrow>
          (case colour_loop as_hash t of
             (Inl e, t1) \<Rightarrow> (Inl e, t1)
           | (Inr u, t1) \<Rightarrow>
               (case graph_node conf_content ''JobStatus'' of
                  Inl e \<Rightarrow> (Inl e, t1)
                | Inr js_hash \<Rightarrow> colour_loop js_hash t1)))"

text \<open>
  Lines 38-40: the path from the environment, \<^verbatim>\<open>open\<close> and \<^verbatim>\<open>json.load\<close>. A
  missing variable raises KeyError before anything is opened; a file that cannot be
  opened or read raises OSError; \<^verbatim>\<open>json.load\<close> raises what the parser raises.
\<close>

definition read_config :: "world \<Rightarrow> pystate \<Rightarrow> (error + json) \<times> pystate" where
  "read_config w st =
     (case environ w ''EHIVE_ROOT_DIR'' of
        None \<Rightarrow> (Inl KeyError, st)
      | Some root \<Rightarrow>
          let default_config_file = root @ path_sep w @ ''hive_config.json'';
              st1 = st\<lparr>opened := opened st @ [default_config_file]\<rparr>
          in (case files w default_config_file of
                None \<Rightarrow> (Inl OSError, st1)
              | Some fc \<Rightarrow> (json_load w fc, st1)))"

definition load_colours_if_needed :: "world \<Rightarrow> pystate \<Rightarrow> (error + unit) \<times> pystate" where
  "load_colours_if_needed w st =
     (case read_config w st of
        (Inl e, st1) \<Rightarrow> (Inl e, st1)
      | (Inr conf_content, st1) \<Rightarrow>
          (case load_tables conf_content (hive_colours st1) of
             (r, t) \<Rightarrow> (r, st1\<lparr>hive_colours := t\<rparr>)))"

subsection \<open>The visit and depart callbacks\<close>

text \<open>\<^verbatim>\<open>'...%s...' % v\<close> puts a str in as it is and any other value through \<^verbatim>\<open>str\<close>.\<close>

definition percent_s :: "world \<Rightarrow> json \<Rightarrow> string" where
  "percent_s w v = (case v of JStr s \<Rightarrow> s | _ \<Rightarrow> py_str w v)"

text \<open>
  \<^verbatim>\<open>self.body\<close> is the list of output fragments of the translator. A callback
  returns the new body; when it raises, nothing was appended.
\<close>

definition visit_hivestatus_html ::
    "world \<Rightarrow> string list \<Rightarrow> hivestatus \<Rightarrow> pystate \<Rightarrow> (error + string list) \<times> pystate" where
  \<open>visit_hivestatus_html w body node st =
     (case load_colours_if_needed w st of
        (Inl e, st1) \<Rightarrow> (Inl e, st1)
      | (Inr u, st1) \<Rightarrow>
          (case hive_colours st1 (KStr (status node)) of
             None \<Rightarrow> (Inl KeyError, st1)
           | Some c \<Rightarrow>
               (Inr (body @ [''<span style="background-color:'' @ percent_s w c @ ''">'']), st1)))\<close>

definition depart_hivestatus_html :: "string list \<Rightarrow> hivestatus \<Rightarrow> string list" where
  "depart_hivestatus_html body node = body @ [''</span>'']"

definition visit_hivestatus_latex ::
    "world \<Rightarrow> string list \<Rightarrow> hivestatus \<Rightarrow> pystate \<Rightarrow> (error + string list) \<times> pystate" where
  "visit_hivestatus_latex w body node st =
     (case load_colours_if_needed w st of
        (Inl e, st1) \<Rightarrow> (Inl e, st1)
      | (Inr u, st1) \<Rightarrow>
          (case hive_colours st1 (KStr (status node)) of
             None \<Rightarrow> (Inl KeyError, st1)
           | Some c \<Rightarrow>
               (Inr (body @ [[CHR 0x0A, CHR 0x5C] @ ''colorbox{'' @ percent_s w c @ ''}{'']), st1)))"

definition depart_hivestatus_latex :: "string list \<Rightarrow> hivestatus \<Rightarrow> string list" where
  "depart_hivestatus_latex body node = body @ [''}'']"

text \<open>
  The builder renders a node by calling its visit callback, then rendering the
  children, then calling its depart callback. The traversal belongs to the builder,
  not to the module; \<open>encode\<close> is what the builder's translator writes for the
  text of a child.
\<close>

definition walkabout_html ::
    "world \<Rightarrow> (string \<Rightarrow> string) \<Rightarrow> string list \<Rightarrow> hivestatus \<Rightarrow> pystate
      \<Rightarrow> (error + string list) \<times> pystate" where
  "walkabout_html w encode body node st =
     (case visit_hivestatus_html w body node st of
        (Inl e, st1) \<Rightarrow> (Inl e, st1)
      | (Inr body1, st1) \<Rightarrow>
          (Inr (depart_hivestatus_html
                  (body1 @ map (\<lambda>child. case child of Text s \<Rightarrow> encode s) (children node))
                  node), st1))"

definition walkabout_latex ::
    "world \<Rightarrow> (string \<Rightarrow> string) \<Rightarrow> string list \<Rightarrow> hivestatus \<Rightarrow> pystate
      \<Rightarrow> (error + string list) \<times> pystate" where
  "walkabout_latex w encode body node st =
     (case visit_hivestatus_latex w body node st of
        (Inl e, st1) \<Rightarrow> (Inl e, st1)
      | (Inr body1, st1) \<Rightarrow>
          (Inr (depart_hivestatus_latex
                  (body1 @ map (\<lambda>child. case child of Text s \<Rightarrow> encode s) (children node))
                  node), st1))"

subsection \<open>A concrete configuration\<close>

text \<open>
  The state after the module is imported: \<^verbatim>\<open>hive_colours = {}\<close>, nothing opened.
\<close>

definition initial_state :: pystate where
  "initial_state = \<lparr>hive_colours = Map.empty, opened = []\<rparr>"

text \<open>
  A configuration file in the format of eHive's \<^verbatim>\<open>hive_config.json\<close>, and the value
  that \<^verbatim>\<open>json.load\<close> returns for it. READY has a record in both tables, EMPTY only
  in the first, DONE is a scalar in the first and a record in the second, Font and
  FAILED are scalars.
\<close>

definition example_text :: string where
  \<open>example_text =
     ''{"Graph": {"Node": {"AnalysisStatus": {"READY": {"Colour": "green"}, '' @
     ''"EMPTY": {"Colour": "white"}, "DONE": 0, "Font": "Times-Roman"}, '' @
     ''"JobStatus": {"READY": {"Colour": "blue"}, "DONE": {"Colour": "#00ff00"}, '' @
     ''"FAILED": 1}}}}''\<close>

definition example_as_hash :: "(string \<times> json) list" where
  "example_as_hash =
     [(''READY'', JObj [(''Colour'', JStr ''green'')]),
      (''EMPTY'', JObj [(''Colour'', JStr ''white'')]),
      (''DONE'', JInt 0),
      (''Font'', JStr ''Times-Roman'')]"

definition example_js_hash :: "(string \<times> json) list" where
  "example_js_hash =
     [(''READY'', JObj [(''Colour'', JStr ''blue'')]),
      (''DONE'', JObj [(''Colour'', JStr ''#00ff00'')]),
      (''FAILED'', JInt 1)]"

definition example_conf :: json where
  "example_conf =
     JObj [(''Graph'', JObj [(''Node'',
       JObj [(''AnalysisStatus'', JObj example_as_hash),
             (''JobStatus'', JObj example_js_hash)])])]"

text \<open>The same file after an edit: READY is red, and nothing else is left.\<close>

definition edited_text :: string where
  \<open>edited_text =
     ''{"Graph": {"Node": {"AnalysisStatus": {}, '' @
     ''"JobStatus": {"READY": {"Colour": "red"}}}}}''\<close>

definition edited_conf :: json where
  "edited_conf =
     JObj [(''Graph'', JObj [(''Node'',
       JObj [(''AnalysisStatus'', JObj []),
             (''JobStatus'', JObj [(''READY'', JObj [(''Colour'', JStr ''red'')])])])])]"

text \<open>A file without the JobStatus table.\<close>

definition no_job_status_text :: string where
  \<open>no_job_status_text =
     ''{"Graph": {"Node": {"AnalysisStatus": {"READY": {"Colour": "green"}}}}}''\<close>

definition no_job_status_conf :: json where
  "no_job_status_conf =
     JObj [(''Graph'', JObj [(''Node'',
       JObj [(''AnalysisStatus'', JObj [(''READY'', JObj [(''Colour'', JStr ''green'')])])])])]"

text \<open>
  \<^verbatim>\<open>json.load\<close> on the texts used below: the three files above, the empty object,
  and ValueError (\<^verbatim>\<open>json.JSONDecodeError\<close> is a ValueError) for the text \<^verbatim>\<open>{\<close> that
  is not JSON. On any other text this stand-in raises ValueError as well.
\<close>

definition example_json_load :: "string \<Rightarrow> error + json" where
  "example_json_load s =
     (if s = example_text then Inr example_conf
      else if s = edited_text then Inr edited_conf
      else if s = no_job_status_text then Inr no_job_status_conf
      else if s = ''{}'' then Inr (JObj [])
      else Inl ValueError)"

definition example_world :: world where
  "example_world =
     \<lparr>environ = [''EHIVE_ROOT_DIR'' \<mapsto> ''/opt/ehive''],
      path_sep = ''/'',
      files = [''/opt/ehive/hive_config.json'' \<mapsto> example_text],
      json_load = example_json_load,
      py_str = (\<lambda>v. [])\<rparr>"

text \<open>The same world with another content of the configuration file.\<close>

definition world_with_file :: "string \<Rightarrow> world" where
  "world_with_file fc = example_world\<lparr>files := [''/opt/ehive/hive_config.json'' \<mapsto> fc]\<rparr>"

section \<open>Properties\<close>

subsection \<open>Unfolding the definitions\<close>

lemmas load_defs =
  load_colours_if_needed_def read_config_def load_tables_def graph_node_def Let_def

lemmas example_defs =
  example_world_def world_with_file_def initial_state_def example_json_load_def
  example_text_def edited_text_def no_job_status_text_def
  example_conf_def edited_conf_def no_job_status_conf_def
  example_as_hash_def example_js_hash_def

subsection \<open>The loops over a table\<close>

lemma store_colour_cases:
  "store_colour k v t =
     (case v of
        JObj r \<Rightarrow>
          (case map_of r ''Colour'' of
             None \<Rightarrow> (Inl KeyError, t)
           | Some c \<Rightarrow> (Inr (), t(k \<mapsto> c)))
      | _ \<Rightarrow> (Inr (), t))"
  by (cases v) simp_all

text \<open>
  A loop that ends without an exception has stored, for each key it visited whose
  value is a dict, the \<^verbatim>\<open>Colour\<close> of that dict, and has left the other keys alone.
\<close>

lemma for_keys_str:
  "for_keys d ks t = (Inr u, t') \<Longrightarrow>
   t' (KStr l) =
     (if l \<in> set ks
      then (case map_of d l of Some (JObj r) \<Rightarrow> map_of r ''Colour'' | _ \<Rightarrow> t (KStr l))
      else t (KStr l))"
proof (induction ks arbitrary: t)
  case Nil
  then show ?case by simp
next
  case (Cons s ss)
  then show ?case
    by (auto simp: store_colour_cases
        split: option.splits json.splits sum.splits prod.splits if_splits)
qed

text \<open>When every dict among the values has a \<^verbatim>\<open>Colour\<close>, the loop raises nothing.\<close>

lemma for_keys_succeeds:
  assumes "list_all (\<lambda>(l, v). case v of JObj r \<Rightarrow> map_of r ''Colour'' \<noteq> None | _ \<Rightarrow> True) d"
    and "set ks \<subseteq> fst ` set d"
  shows "\<exists>t'. for_keys d ks t = (Inr (), t')"
  using assms(2)
proof (induction ks arbitrary: t)
  case Nil
  then show ?case by simp
next
  case (Cons s ss)
  from Cons.prems obtain v where v: "map_of d s = Some v"
    by (cases "map_of d s") (auto simp: map_of_eq_None_iff)
  then have "(s, v) \<in> set d" by (rule map_of_SomeD)
  with assms(1) have ok: "case v of JObj r \<Rightarrow> map_of r ''Colour'' \<noteq> None | _ \<Rightarrow> True"
    by (force simp: list_all_iff split: json.splits)
  then obtain t1 where t1: "store_colour (KStr s) v t = (Inr (), t1)"
    by (cases v) auto
  from Cons.prems have "set ss \<subseteq> fst ` set d" by simp
  from Cons.IH [OF this, of t1] v t1 show ?case by simp
qed

lemma colour_loop_obj:
  assumes "colour_loop (JObj d) t = (Inr u, t')"
  shows "t' (KStr l) =
     (case map_of d l of Some (JObj r) \<Rightarrow> map_of r ''Colour'' | _ \<Rightarrow> t (KStr l))"
proof -
  from assms have "for_keys d (map fst d) t = (Inr u, t')" by simp
  from for_keys_str [OF this, of l] show ?thesis
    by (auto simp: map_of_eq_None_iff [symmetric] split: option.splits)
qed

lemma colour_loop_obj_succeeds:
  assumes "list_all (\<lambda>(l, v). case v of JObj r \<Rightarrow> map_of r ''Colour'' \<noteq> None | _ \<Rightarrow> True) d"
  shows "\<exists>t'. colour_loop (JObj d) t = (Inr (), t')"
  using for_keys_succeeds [OF assms, of "map fst d" t] by simp

subsection \<open>Loading both tables\<close>

lemma load_tables_obj:
  assumes "graph_node conf ''AnalysisStatus'' = Inr (JObj as_hash)"
    and "graph_node conf ''JobStatus'' = Inr (JObj js_hash)"
    and "load_tables conf t = (Inr u, t')"
  shows "t' (KStr l) =
     (case map_of js_hash l of
        Some (JObj r) \<Rightarrow> map_of r ''Colour''
      | _ \<Rightarrow> (case map_of as_hash l of
               Some (JObj r) \<Rightarrow> map_of r ''Colour''
             | _ \<Rightarrow> t (KStr l)))"
proof -
  from assms obtain t1 where
    a: "colour_loop (JObj as_hash) t = (Inr (), t1)" and
    j: "colour_loop (JObj js_hash) t1 = (Inr u, t')"
    by (auto simp: load_tables_def split: sum.splits prod.splits)
  show ?thesis
    unfolding colour_loop_obj [OF j] colour_loop_obj [OF a] ..
qed

lemma load_tables_obj_succeeds:
  assumes "graph_node conf ''AnalysisStatus'' = Inr (JObj as_hash)"
    and "graph_node conf ''JobStatus'' = Inr (JObj js_hash)"
    and "list_all (\<lambda>(l, v). case v of JObj r \<Rightarrow> map_of r ''Colour'' \<noteq> None | _ \<Rightarrow> True) as_hash"
    and "list_all (\<lambda>(l, v). case v of JObj r \<Rightarrow> map_of r ''Colour'' \<noteq> None | _ \<Rightarrow> True) js_hash"
  shows "\<exists>t'. load_tables conf t = (Inr (), t')"
proof -
  from colour_loop_obj_succeeds [OF assms(3)] obtain t1 where
    a: "colour_loop (JObj as_hash) t = (Inr (), t1)" by blast
  from colour_loop_obj_succeeds [OF assms(4)] obtain t2 where
    j: "colour_loop (JObj js_hash) t1 = (Inr (), t2)" by blast
  show ?thesis
    by (simp only: load_tables_def assms(1,2) a j sum.case prod.case) blast
qed

text \<open>
  With the variable set, the file readable and its content parsed, a call opens the
  file once more and runs the two loops on the table it finds.
\<close>

lemma load_reads:
  assumes "environ w ''EHIVE_ROOT_DIR'' = Some root"
    and "files w (root @ path_sep w @ ''hive_config.json'') = Some fc"
    and "json_load w fc = Inr conf"
  shows "load_colours_if_needed w st =
     (fst (load_tables conf (hive_colours st)),
      \<lparr>hive_colours = snd (load_tables conf (hive_colours st)),
       opened = opened st @ [root @ path_sep w @ ''hive_config.json'']\<rparr>)"
  using assms
  by (simp add: load_colours_if_needed_def read_config_def Let_def split: prod.splits)

subsection \<open>Index and slices\<close>

text \<open>
  \<^verbatim>\<open>index\<close> returns the length of the longest prefix without the character, when
  the character occurs, and raises ValueError when it does not.
\<close>

lemma str_index_found:
  "c \<in> set xs \<Longrightarrow> str_index xs c = Inr (length (takeWhile (\<lambda>x. x \<noteq> c) xs))"
  by (induction xs) auto

lemma str_index_missing: "c \<notin> set xs \<Longrightarrow> str_index xs c = Inl ValueError"
  by (induction xs) auto

lemma str_index_at:
  assumes "i < length xs" and "xs ! i = c" and "c \<notin> set (take i xs)"
  shows "str_index xs c = Inr i"
  using assms
proof (induction xs arbitrary: i)
  case Nil
  then show ?case by simp
next
  case (Cons x xs)
  show ?case
  proof (cases i)
    case 0
    with Cons.prems show ?thesis by simp
  next
    case (Suc k)
    with Cons.prems have "k < length xs" "xs ! k = c" "c \<notin> set (take k xs)" "x \<noteq> c"
      by auto
    with Cons.IH [of k] Suc show ?thesis by simp
  qed
qed

text \<open>The slice \<^verbatim>\<open>text[1:i]\<close> holds the characters at the positions 1 to \<open>i - 1\<close>.\<close>

lemma slice_nth: "i \<le> length s \<Longrightarrow> slice 1 i s = map (\<lambda>k. s ! k) [1..<i]"
  unfolding slice_def
  by (rule nth_equalityI) auto

lemma take_length_takeWhile: "take (length (takeWhile P xs)) xs = takeWhile P xs"
  by (induction xs) auto

lemma drop_Suc_length_takeWhile:
  "drop (Suc (length (takeWhile P xs))) xs = drop 1 (dropWhile P xs)"
  by (induction xs) auto

subsection \<open>A call that succeeds has read the configuration\<close>

lemma load_success_inversion:
  assumes "load_colours_if_needed w st = (Inr u, st')"
  shows "\<exists>root fc conf.
     environ w ''EHIVE_ROOT_DIR'' = Some root \<and>
     files w (root @ path_sep w @ ''hive_config.json'') = Some fc \<and>
     json_load w fc = Inr conf \<and>
     load_tables conf (hive_colours st) = (Inr (), hive_colours st') \<and>
     opened st' = opened st @ [root @ path_sep w @ ''hive_config.json'']"
  using assms
  by (auto simp: load_colours_if_needed_def read_config_def Let_def
      split: option.splits sum.splits prod.splits)

text \<open>The example configuration, loaded from the empty table.\<close>

lemma example_load:
  "load_colours_if_needed example_world initial_state =
     (Inr (),
      \<lparr>hive_colours = [KStr ''EMPTY'' \<mapsto> JStr ''white'', KStr ''READY'' \<mapsto> JStr ''blue'',
                       KStr ''DONE'' \<mapsto> JStr ''#00ff00''],
       opened = [''/opt/ehive/hive_config.json'']\<rparr>)"
  by (simp add: load_defs example_defs)

subsection \<open>The claims about the colour table\<close>

text \<open>
  C1. The claim: after a first successful call of \<^verbatim>\<open>load_colours_if_needed\<close>, every
  later call is a no-op, which reads no file and leaves the table as it was. The
  function has no test of whether the table is loaded, in spite of its name. On the
  example configuration the first call succeeds and opens the file; a second call
  opens it again; and when the file was edited in between (READY from blue to red),
  the second call changes the table.
\<close>

theorem second_load_reads_again:
  "fst (load_colours_if_needed example_world initial_state) = Inr () \<and>
   opened (snd (load_colours_if_needed example_world initial_state)) =
     [''/opt/ehive/hive_config.json''] \<and>
   opened (snd (load_colours_if_needed example_world
                  (snd (load_colours_if_needed example_world initial_state)))) =
     [''/opt/ehive/hive_config.json'', ''/opt/ehive/hive_config.json''] \<and>
   hive_colours (snd (load_colours_if_needed example_world initial_state)) (KStr ''READY'') =
     Some (JStr ''blue'') \<and>
   hive_colours (snd (load_colours_if_needed (world_with_file edited_text)
                        (snd (load_colours_if_needed example_world initial_state))))
       (KStr ''READY'') =
     Some (JStr ''red'')"
  by (simp add: load_defs example_defs)

text \<open>
  C2, as the claim states it, fails on a label that both tables hold: READY has the
  record with colour green in AnalysisStatus, and the table maps it to blue, the
  colour of its JobStatus record. It fails as well on a label that is a scalar in one
  table and a record in the other: DONE is the scalar 0 in AnalysisStatus and is in
  the table.
\<close>

theorem overlapping_label_counterexample:
  "graph_node example_conf ''AnalysisStatus'' = Inr (JObj example_as_hash) \<and>
   map_of example_as_hash ''READY'' = Some (JObj [(''Colour'', JStr ''green'')]) \<and>
   map_of example_as_hash ''DONE'' = Some (JInt 0) \<and>
   fst (load_colours_if_needed example_world initial_state) = Inr () \<and>
   hive_colours (snd (load_colours_if_needed example_world initial_state)) (KStr ''READY'') =
     Some (JStr ''blue'') \<and>
   hive_colours (snd (load_colours_if_needed example_world initial_state)) (KStr ''DONE'') =
     Some (JStr ''#00ff00'')"
  by (simp add: load_defs example_defs)

text \<open>
  C2, amended. Let the variable be set, the file readable, its content parsed, both
  tables be dicts, and every record in them have a \<^verbatim>\<open>Colour\<close>. Then the call succeeds,
  and afterwards: a label with a record in JobStatus is mapped to the colour of that
  record; a label with a record in AnalysisStatus and none in JobStatus is mapped to
  the colour of the AnalysisStatus record; any other label has the entry it had
  before the call, so that it is absent when the table was empty before.
\<close>

theorem colour_table_after_load:
  assumes "environ w ''EHIVE_ROOT_DIR'' = Some root"
    and "files w (root @ path_sep w @ ''hive_config.json'') = Some fc"
    and "json_load w fc = Inr conf"
    and "graph_node conf ''AnalysisStatus'' = Inr (JObj as_hash)"
    and "graph_node conf ''JobStatus'' = Inr (JObj js_hash)"
    and "list_all (\<lambda>(l, v). case v of JObj r \<Rightarrow> map_of r ''Colour'' \<noteq> None | _ \<Rightarrow> True) as_hash"
    and "list_all (\<lambda>(l, v). case v of JObj r \<Rightarrow> map_of r ''Colour'' \<noteq> None | _ \<Rightarrow> True) js_hash"
  shows "\<exists>st'. load_colours_if_needed w st = (Inr (), st') \<and>
     (\<forall>l. hive_colours st' (KStr l) =
        (case map_of js_hash l of
           Some (JObj r) \<Rightarrow> map_of r ''Colour''
         | _ \<Rightarrow> (case map_of as_hash l of
                  Some (JObj r) \<Rightarrow> map_of r ''Colour''
                | _ \<Rightarrow> hive_colours st (KStr l))))"
proof -
  from load_tables_obj_succeeds [OF assms(4-7)] obtain t' where
    t': "load_tables conf (hive_colours st) = (Inr (), t')" by blast
  have "load_colours_if_needed w st =
      (Inr (), \<lparr>hive_colours = t', opened = opened st @ [root @ path_sep w @ ''hive_config.json'']\<rparr>)"
    by (simp add: load_reads [OF assms(1-3)] t')
  moreover have "\<forall>l. t' (KStr l) =
        (case map_of js_hash l of
           Some (JObj r) \<Rightarrow> map_of r ''Colour''
         | _ \<Rightarrow> (case map_of as_hash l of
                  Some (JObj r) \<Rightarrow> map_of r ''Colour''
                | _ \<Rightarrow> hive_colours st (KStr l)))"
    using load_tables_obj [OF assms(4,5) t'] by blast
  ultimately show ?thesis by simp
qed

text \<open>
  The amended C2 on the example configuration, from the empty table: READY is blue,
  EMPTY white, DONE \<^verbatim>\<open>#00ff00\<close>, and the scalars Font and FAILED are absent.
\<close>

theorem colour_table_after_load_witness:
  "environ example_world ''EHIVE_ROOT_DIR'' = Some ''/opt/ehive'' \<and>
   files example_world (''/opt/ehive'' @ path_sep example_world @ ''hive_config.json'') =
     Some example_text \<and>
   json_load example_world example_text = Inr example_conf \<and>
   graph_node example_conf ''AnalysisStatus'' = Inr (JObj example_as_hash) \<and>
   graph_node example_conf ''JobStatus'' = Inr (JObj example_js_hash) \<and>
   (\<exists>st'. load_colours_if_needed example_world initial_state = (Inr (), st') \<and>
      hive_colours st' (KStr ''READY'') = Some (JStr ''blue'') \<and>
      hive_colours st' (KStr ''EMPTY'') = Some (JStr ''white'') \<and>
      hive_colours st' (KStr ''DONE'') = Some (JStr ''#00ff00'') \<and>
      hive_colours st' (KStr ''Font'') = None \<and>
      hive_colours st' (KStr ''FAILED'') = None)"
proof -
  have h1: "environ example_world ''EHIVE_ROOT_DIR'' = Some ''/opt/ehive''"
    by (simp add: example_world_def)
  have h2: "files example_world (''/opt/ehive'' @ path_sep example_world @ ''hive_config.json'') =
     Some example_text"
    by (simp add: example_world_def)
  have h3: "json_load example_world example_text = Inr example_conf"
    by (simp add: example_world_def example_json_load_def)
  have h4: "graph_node example_conf ''AnalysisStatus'' = Inr (JObj example_as_hash)"
    by (simp add: graph_node_def example_conf_def)
  have h5: "graph_node example_conf ''JobStatus'' = Inr (JObj example_js_hash)"
    by (simp add: graph_node_def example_conf_def)
  have h6: "list_all (\<lambda>(l, v). case v of JObj r \<Rightarrow> map_of r ''Colour'' \<noteq> None | _ \<Rightarrow> True)
      example_as_hash"
    by (simp add: example_as_hash_def)
  have h7: "list_all (\<lambda>(l, v). case v of JObj r \<Rightarrow> map_of r ''Colour'' \<noteq> None | _ \<Rightarrow> True)
      example_js_hash"
    by (simp add: example_js_hash_def)
  from colour_table_after_load [OF h1 h2 h3 h4 h5 h6 h7, of initial_state]
  obtain st' where st': "load_colours_if_needed example_world initial_state = (Inr (), st')"
    and tab: "\<And>l. hive_colours st' (KStr l) =
        (case map_of example_js_hash l of
           Some (JObj r) \<Rightarrow> map_of r ''Colour''
         | _ \<Rightarrow> (case map_of example_as_hash l of
                  Some (JObj r) \<Rightarrow> map_of r ''Colour''
                | _ \<Rightarrow> hive_colours initial_state (KStr l)))"
    by blast
  have "hive_colours st' (KStr ''READY'') = Some (JStr ''blue'')"
    "hive_colours st' (KStr ''EMPTY'') = Some (JStr ''white'')"
    "hive_colours st' (KStr ''DONE'') = Some (JStr ''#00ff00'')"
    "hive_colours st' (KStr ''Font'') = None"
    "hive_colours st' (KStr ''FAILED'') = None"
    by (simp_all add: tab example_as_hash_def example_js_hash_def initial_state_def)
  with st' h1 h2 h3 h4 h5 show ?thesis by blast
qed

text \<open>
  C3. Let the configuration be read as in C2 and the call succeed. A label with a
  record in AnalysisStatus and a record in JobStatus is mapped to the \<^verbatim>\<open>Colour\<close> of
  its JobStatus record: JobStatus is the table processed second, and its store
  overwrites the earlier one.
\<close>

theorem job_status_overwrites:
  assumes "environ w ''EHIVE_ROOT_DIR'' = Some root"
    and "files w (root @ path_sep w @ ''hive_config.json'') = Some fc"
    and "json_load w fc = Inr conf"
    and "graph_node conf ''AnalysisStatus'' = Inr (JObj as_hash)"
    and "graph_node conf ''JobStatus'' = Inr (JObj js_hash)"
    and "map_of as_hash l = Some (JObj ra)"
    and "map_of js_hash l = Some (JObj rj)"
    and "map_of rj ''Colour'' = Some c"
    and "load_colours_if_needed w st = (Inr (), st')"
  shows "hive_colours st' (KStr l) = Some c"
proof -
  from assms(9) have "load_tables conf (hive_colours st) = (Inr (), hive_colours st')"
    by (auto simp: load_reads [OF assms(1-3)] prod_eq_iff)
  from load_tables_obj [OF assms(4,5) this, of l] show ?thesis
    by (simp add: assms(7,8))
qed

text \<open>
  C3 on the example configuration: READY is green in AnalysisStatus and blue in
  JobStatus, and the table maps it to blue.
\<close>

theorem job_status_overwrites_witness:
  "environ example_world ''EHIVE_ROOT_DIR'' = Some ''/opt/ehive'' \<and>
   files example_world (''/opt/ehive'' @ path_sep example_world @ ''hive_config.json'') =
     Some example_text \<and>
   json_load example_world example_text = Inr example_conf \<and>
   graph_node example_conf ''AnalysisStatus'' = Inr (JObj example_as_hash) \<and>
   graph_node example_conf ''JobStatus'' = Inr (JObj example_js_hash) \<and>
   map_of example_as_hash ''READY'' = Some (JObj [(''Colour'', JStr ''green'')]) \<and>
   map_of example_js_hash ''READY'' = Some (JObj [(''Colour'', JStr ''blue'')]) \<and>
   fst (load_colours_if_needed example_world initial_state) = Inr () \<and>
   hive_colours (snd (load_colours_if_needed example_world initial_state)) (KStr ''READY'') =
     Some (JStr ''blue'')"
proof -
  have h1: "environ example_world ''EHIVE_ROOT_DIR'' = Some ''/opt/ehive''"
    by (simp add: example_world_def)
  have h2: "files example_world (''/opt/ehive'' @ path_sep example_world @ ''hive_config.json'') =
     Some example_text"
    by (simp add: example_world_def)
  have h3: "json_load example_world example_text = Inr example_conf"
    by (simp add: example_world_def example_json_load_def)
  have h4: "graph_node example_conf ''AnalysisStatus'' = Inr (JObj example_as_hash)"
    by (simp add: graph_node_def example_conf_def)
  have h5: "graph_node example_conf ''JobStatus'' = Inr (JObj example_js_hash)"
    by (simp add: graph_node_def example_conf_def)
  have h6: "map_of example_as_hash ''READY'' = Some (JObj [(''Colour'', JStr ''green'')])"
    by (simp add: example_as_hash_def)
  have h7: "map_of example_js_hash ''READY'' = Some (JObj [(''Colour'', JStr ''blue'')])"
    by (simp add: example_js_hash_def)
  have h8: "map_of [(''Colour'', JStr ''blue'')] ''Colour'' = Some (JStr ''blue'')"
    by simp
  have ok: "fst (load_colours_if_needed example_world initial_state) = Inr ()"
    by (simp add: load_defs example_defs)
  then have h9: "load_colours_if_needed example_world initial_state =
      (Inr (), snd (load_colours_if_needed example_world initial_state))"
    by (simp add: prod_eq_iff)
  from job_status_overwrites [OF h1 h2 h3 h4 h5 h6 h7 h8 h9] h1 h2 h3 h4 h5 h6 h7 ok
  show ?thesis by blast
qed

text \<open>
  C8. The call raises, and returns no table, in each of these cases: the variable
  \<^verbatim>\<open>EHIVE_ROOT_DIR\<close> is unset (KeyError, before any file is opened); the file cannot be
  opened or read (OSError); \<^verbatim>\<open>json.load\<close> raises \<open>e\<close> on its content (the same
  \<open>e\<close>); the path \<^verbatim>\<open>Graph.Node.AnalysisStatus\<close> is absent (KeyError); the path
  \<^verbatim>\<open>Graph.Node.JobStatus\<close> is absent (some exception: KeyError, unless the loop over
  AnalysisStatus raised first). These exceptions are what the specification calls
  ConfigurationError; the module defines no exception class of its own and catches
  nothing. In the first four cases the table is as it was before the call.
\<close>

theorem load_failures_propagate:
  "(environ w ''EHIVE_ROOT_DIR'' = None \<longrightarrow>
      load_colours_if_needed w st = (Inl KeyError, st)) \<and>
   (environ w ''EHIVE_ROOT_DIR'' = Some root \<and>
    files w (root @ path_sep w @ ''hive_config.json'') = None \<longrightarrow>
      fst (load_colours_if_needed w st) = Inl OSError \<and>
      hive_colours (snd (load_colours_if_needed w st)) = hive_colours st) \<and>
   (environ w ''EHIVE_ROOT_DIR'' = Some root \<and>
    files w (root @ path_sep w @ ''hive_config.json'') = Some fc \<and>
    json_load w fc = Inl e \<longrightarrow>
      fst (load_colours_if_needed w st) = Inl e \<and>
      hive_colours (snd (load_colours_if_needed w st)) = hive_colours st) \<and>
   (environ w ''EHIVE_ROOT_DIR'' = Some root \<and>
    files w (root @ path_sep w @ ''hive_config.json'') = Some fc \<and>
    json_load w fc = Inr conf \<and>
    graph_node conf ''AnalysisStatus'' = Inl KeyError \<longrightarrow>
      fst (load_colours_if_needed w st) = Inl KeyError \<and>
      hive_colours (snd (load_colours_if_needed w st)) = hive_colours st) \<and>
   (environ w ''EHIVE_ROOT_DIR'' = Some root \<and>
    files w (root @ path_sep w @ ''hive_config.json'') = Some fc \<and>
    json_load w fc = Inr conf \<and>
    graph_node conf ''JobStatus'' = Inl KeyError \<longrightarrow>
      (\<exists>e'. fst (load_colours_if_needed w st) = Inl e'))"
proof (intro conjI impI)
  assume "environ w ''EHIVE_ROOT_DIR'' = None"
  then show "load_colours_if_needed w st = (Inl KeyError, st)"
    by (simp add: load_colours_if_needed_def read_config_def)
next
  assume a: "environ w ''EHIVE_ROOT_DIR'' = Some root \<and>
    files w (root @ path_sep w @ ''hive_config.json'') = None"
  then show "fst (load_colours_if_needed w st) = Inl OSError"
    by (simp add: load_colours_if_needed_def read_config_def Let_def)
  from a show "hive_colours (snd (load_colours_if_needed w st)) = hive_colours st"
    by (simp add: load_colours_if_needed_def read_config_def Let_def)
next
  assume a: "environ w ''EHIVE_ROOT_DIR'' = Some root \<and>
    files w (root @ path_sep w @ ''hive_config.json'') = Some fc \<and> json_load w fc = Inl e"
  then show "fst (load_colours_if_needed w st) = Inl e"
    by (simp add: load_colours_if_needed_def read_config_def Let_def)
  from a show "hive_colours (snd (load_colours_if_needed w st)) = hive_colours st"
    by (simp add: load_colours_if_needed_def read_config_def Let_def)
next
  assume a: "environ w ''EHIVE_ROOT_DIR'' = Some root \<and>
    files w (root @ path_sep w @ ''hive_config.json'') = Some fc \<and>
    json_load w fc = Inr conf \<and> graph_node conf ''AnalysisStatus'' = Inl KeyError"
  then have l: "load_colours_if_needed w st =
     (fst (load_tables conf (hive_colours st)),
      \<lparr>hive_colours = snd (load_tables conf (hive_colours st)),
       opened = opened st @ [root @ path_sep w @ ''hive_config.json'']\<rparr>)"
    by (simp add: load_reads)
  from a have t: "load_tables conf (hive_colours st) = (Inl KeyError, hive_colours st)"
    by (simp add: load_tables_def)
  show "fst (load_colours_if_needed w st) = Inl KeyError" by (simp add: l t)
  show "hive_colours (snd (load_colours_if_needed w st)) = hive_colours st" by (simp add: l t)
next
  assume a: "environ w ''EHIVE_ROOT_DIR'' = Some root \<and>
    files w (root @ path_sep w @ ''hive_config.json'') = Some fc \<and>
    json_load w fc = Inr conf \<and> graph_node conf ''JobStatus'' = Inl KeyError"
  then have l: "load_colours_if_needed w st =
     (fst (load_tables conf (hive_colours st)),
      \<lparr>hive_colours = snd (load_tables conf (hive_colours st)),
       opened = opened st @ [root @ path_sep w @ ''hive_config.json'']\<rparr>)"
    by (simp add: load_reads)
  from a have "\<exists>e'. fst (load_tables conf (hive_colours st)) = Inl e'"
    by (auto simp: load_tables_def split: sum.splits prod.splits)
  then show "\<exists>e'. fst (load_colours_if_needed w st) = Inl e'" by (simp add: l)
qed

text \<open>
  C8 on five worlds: no variable, no file, the text \<^verbatim>\<open>{\<close>, the empty object, and a
  configuration without JobStatus.
\<close>

theorem load_failures_propagate_witness:
  "environ (example_world\<lparr>environ := Map.empty\<rparr>) ''EHIVE_ROOT_DIR'' = None \<and>
   load_colours_if_needed (example_world\<lparr>environ := Map.empty\<rparr>) initial_state =
     (Inl KeyError, initial_state) \<and>
   files (example_world\<lparr>files := Map.empty\<rparr>) ''/opt/ehive/hive_config.json'' = None \<and>
   fst (load_colours_if_needed (example_world\<lparr>files := Map.empty\<rparr>) initial_state) =
     Inl OSError \<and>
   json_load (world_with_file ''{'') ''{'' = Inl ValueError \<and>
   fst (load_colours_if_needed (world_with_file ''{'') initial_state) = Inl ValueError \<and>
   json_load (world_with_file ''{}'') ''{}'' = Inr (JObj []) \<and>
   graph_node (JObj []) ''AnalysisStatus'' = Inl KeyError \<and>
   fst (load_colours_if_needed (world_with_file ''{}'') initial_state) = Inl KeyError \<and>
   json_load (world_with_file no_job_status_text) no_job_status_text = Inr no_job_status_conf \<and>
   graph_node no_job_status_conf ''JobStatus'' = Inl KeyError \<and>
   fst (load_colours_if_needed (world_with_file no_job_status_text) initial_state) = Inl KeyError"
  using
    load_failures_propagate [where w = "example_world\<lparr>environ := Map.empty\<rparr>" and st = initial_state]
    load_failures_propagate [where w = "example_world\<lparr>files := Map.empty\<rparr>"
      and st = initial_state and root = "''/opt/ehive''"]
    load_failures_propagate [where w = "world_with_file ''{''" and st = initial_state
      and root = "''/opt/ehive''" and fc = "''{''" and e = ValueError]
    load_failures_propagate [where w = "world_with_file ''{}''" and st = initial_state
      and root = "''/opt/ehive''" and fc = "''{}''" and conf = "JObj []"]
    load_failures_propagate [where w = "world_with_file no_job_status_text" and st = initial_state
      and root = "''/opt/ehive''" and fc = no_job_status_text and conf = no_job_status_conf]
  by (simp add: load_defs example_defs)

subsection \<open>The claims about the role function\<close>

text \<open>
  C4. For a text that contains \<^verbatim>\<open>>\<close>, the role function returns one node and no
  message. The status of the node is the text before the first \<^verbatim>\<open>>\<close> without its
  first character, and its only child is the text after the first \<^verbatim>\<open>>\<close>, stripped
  of the whitespace at both ends.
\<close>

theorem role_parses:
  "CHR ''>'' \<in> set text \<Longrightarrow>
   hivestatus_role text =
     Inr ([\<lparr>status = drop 1 (takeWhile (\<lambda>x. x \<noteq> CHR ''>'') text),
            children = [Text (strip (drop 1 (dropWhile (\<lambda>x. x \<noteq> CHR ''>'') text)))]\<rparr>], [])"
  by (simp add: hivestatus_role_def str_index_found slice_def slice_from_def
      take_length_takeWhile drop_Suc_length_takeWhile)

text \<open>
  C4 on \<^verbatim>\<open><done>All finished\<close>: status \<^verbatim>\<open>done\<close>, label \<^verbatim>\<open>All finished\<close>; and on a
  text with whitespace around the label and a second \<^verbatim>\<open>>\<close> inside it.
\<close>

theorem role_parses_witness:
  "CHR ''>'' \<in> set ''<done>All finished'' \<and>
   hivestatus_role ''<done>All finished'' =
     Inr ([\<lparr>status = ''done'', children = [Text ''All finished'']\<rparr>], []) \<and>
   CHR ''>'' \<in> set ''<READY> not yet > run  '' \<and>
   hivestatus_role ''<READY> not yet > run  '' =
     Inr ([\<lparr>status = ''READY'', children = [Text ''not yet > run'']\<rparr>], [])"
  using role_parses [of "''<done>All finished''"] role_parses [of "''<READY> not yet > run  ''"]
  by (simp add: strip_def isspace_def)

text \<open>
  C5. For a text without \<^verbatim>\<open>>\<close>, the role function returns no node: it raises the
  ValueError of \<^verbatim>\<open>str.index\<close>, which it does not catch. This exception is what the
  specification calls MarkupSyntaxError.
\<close>

theorem role_without_delimiter_fails:
  "CHR ''>'' \<notin> set text \<Longrightarrow> hivestatus_role text = Inl ValueError"
  by (simp add: hivestatus_role_def str_index_missing)

text \<open>C5 on a text whose \<^verbatim>\<open>>\<close> is missing, and on the empty text.\<close>

theorem role_without_delimiter_fails_witness:
  "CHR ''>'' \<notin> set ''<done All finished'' \<and>
   hivestatus_role ''<done All finished'' = Inl ValueError \<and>
   CHR ''>'' \<notin> set '''' \<and> hivestatus_role '''' = Inl ValueError"
  using role_without_delimiter_fails [of "''<done All finished''"]
    role_without_delimiter_fails [of "''''"]
  by simp

text \<open>
  C10. The role function does not look at the first character. When the first
  \<^verbatim>\<open>>\<close> is at position \<open>i\<close> with \<open>1 \<le> i\<close>, the status is the characters at the
  positions 1 to \<open>i - 1\<close>, whatever the character at position 0 is; for \<open>i = 1\<close>
  it is the empty string. Both visit callbacks then use this status as the key of
  their lookup in the table that the load left.
\<close>

theorem role_status_from_index_one:
  assumes \<open>i < length text\<close> and \<open>text ! i = CHR ''>''\<close>
    and \<open>CHR ''>'' \<notin> set (take i text)\<close> and \<open>1 \<le> i\<close>
  shows \<open>hivestatus_role text =
       Inr ([\<lparr>status = map (\<lambda>k. text ! k) [1..<i],
              children = [Text (strip (drop (Suc i) text))]\<rparr>], []) \<and>
     (\<forall>w body st st1 children.
        load_colours_if_needed w st = (Inr (), st1) \<longrightarrow>
          fst (visit_hivestatus_html w body
                 \<lparr>status = map (\<lambda>k. text ! k) [1..<i], children = children\<rparr> st) =
            (case hive_colours st1 (KStr (map (\<lambda>k. text ! k) [1..<i])) of
               None \<Rightarrow> Inl KeyError
             | Some c \<Rightarrow> Inr (body @ [''<span style="background-color:'' @ percent_s w c @ ''">''])) \<and>
          fst (visit_hivestatus_latex w body
                 \<lparr>status = map (\<lambda>k. text ! k) [1..<i], children = children\<rparr> st) =
            (case hive_colours st1 (KStr (map (\<lambda>k. text ! k) [1..<i])) of
               None \<Rightarrow> Inl KeyError
             | Some c \<Rightarrow> Inr (body @ [[CHR 0x0A, CHR 0x5C] @ ''colorbox{'' @ percent_s w c @ ''}{''])))\<close>
proof -
  from assms(1-3) have idx: "str_index text (CHR ''>'') = Inr i"
    by (rule str_index_at)
  from assms(1) have "i \<le> length text" by simp
  then have "slice 1 i text = map (\<lambda>k. text ! k) [1..<i]"
    by (rule slice_nth)
  with idx have role: "hivestatus_role text =
       Inr ([\<lparr>status = map (\<lambda>k. text ! k) [1..<i],
              children = [Text (strip (drop (Suc i) text))]\<rparr>], [])"
    by (simp add: hivestatus_role_def slice_from_def)
  show ?thesis
    by (simp add: role visit_hivestatus_html_def visit_hivestatus_latex_def
        split: option.splits)
qed

text \<open>
  C10 on \<^verbatim>\<open><>label\<close>, whose status is empty and is looked up (the example table has
  no such key, hence KeyError), and on \<^verbatim>\<open>done>ready\<close>, whose status is \<^verbatim>\<open>one\<close>.
\<close>

theorem role_status_from_index_one_witness:
  \<open>(1::nat) < length ''<>label'' \<and> ''<>label'' ! 1 = CHR ''>'' \<and>
   CHR ''>'' \<notin> set (take 1 ''<>label'') \<and>
   hivestatus_role ''<>label'' = Inr ([\<lparr>status = '''', children = [Text ''label'']\<rparr>], []) \<and>
   fst (visit_hivestatus_html example_world [] \<lparr>status = '''', children = [Text ''label'']\<rparr>
          initial_state) = Inl KeyError \<and>
   (4::nat) < length ''done>ready'' \<and> ''done>ready'' ! 4 = CHR ''>'' \<and>
   CHR ''>'' \<notin> set (take 4 ''done>ready'') \<and>
   hivestatus_role ''done>ready'' = Inr ([\<lparr>status = ''one'', children = [Text ''ready'']\<rparr>], [])\<close>
proof -
  have a: "(1::nat) < length ''<>label''" "''<>label'' ! 1 = CHR ''>''"
    "CHR ''>'' \<notin> set (take 1 ''<>label'')" "(1::nat) \<le> 1"
    by simp_all
  have b: "(4::nat) < length ''done>ready''" "''done>ready'' ! 4 = CHR ''>''"
    "CHR ''>'' \<notin> set (take 4 ''done>ready'')" "(1::nat) \<le> 4"
    by (simp_all add: numeral_nat)
  have l: "load_colours_if_needed example_world initial_state =
     (Inr (), snd (load_colours_if_needed example_world initial_state))"
    by (simp add: example_load)
  have k: "hive_colours (snd (load_colours_if_needed example_world initial_state)) (KStr '''') = None"
    by (simp add: example_load)
  from role_status_from_index_one [OF a]
  have r1: "hivestatus_role ''<>label'' = Inr ([\<lparr>status = '''', children = [Text ''label'']\<rparr>], [])"
    and v1: "fst (visit_hivestatus_html example_world [] \<lparr>status = '''', children = [Text ''label'']\<rparr>
          initial_state) = Inl KeyError"
    using l k by (simp_all add: strip_def isspace_def)
  from role_status_from_index_one [OF b]
  have r2: "hivestatus_role ''done>ready'' = Inr ([\<lparr>status = ''one'', children = [Text ''ready'']\<rparr>], [])"
    by (simp add: strip_def isspace_def numeral_nat upt_rec)
  from a b r1 v1 r2 show ?thesis by simp
qed

subsection \<open>The claims about the callbacks\<close>

text \<open>
  C6. Let the load inside the callback succeed and the table it leaves map the
  status of the node to the str \<open>c\<close>. Then the HTML visit appends a \<^verbatim>\<open>span\<close> tag
  whose style is \<^verbatim>\<open>background-color:\<close> followed by \<open>c\<close>, the LaTeX visit appends a
  \<^verbatim>\<open>colorbox\<close> with \<open>c\<close>, the departs append the closing tag and the closing
  brace, and in the output of the whole node the text of the children stands, as
  the builder wrote it, between the two.
\<close>

theorem render_mapped_status:
  assumes \<open>load_colours_if_needed w st = (Inr (), st1)\<close>
    and \<open>hive_colours st1 (KStr (status node)) = Some (JStr c)\<close>
  shows \<open>visit_hivestatus_html w body node st =
       (Inr (body @ [''<span style="background-color:'' @ c @ ''">'']), st1) \<and>
     visit_hivestatus_latex w body node st =
       (Inr (body @ [[CHR 0x0A, CHR 0x5C] @ ''colorbox{'' @ c @ ''}{'']), st1) \<and>
     depart_hivestatus_html body' node = body' @ [''</span>''] \<and>
     depart_hivestatus_latex body' node = body' @ [''}''] \<and>
     walkabout_html w encode body node st =
       (Inr (body @ [''<span style="background-color:'' @ c @ ''">''] @
             map (\<lambda>child. case child of Text s \<Rightarrow> encode s) (children node) @
             [''</span>'']), st1) \<and>
     walkabout_latex w encode body node st =
       (Inr (body @ [[CHR 0x0A, CHR 0x5C] @ ''colorbox{'' @ c @ ''}{''] @
             map (\<lambda>child. case child of Text s \<Rightarrow> encode s) (children node) @
             [''}'']), st1)\<close>
  using assms
  by (simp add: visit_hivestatus_html_def visit_hivestatus_latex_def
      depart_hivestatus_html_def depart_hivestatus_latex_def
      walkabout_html_def walkabout_latex_def percent_s_def)

text \<open>
  C6 on the example configuration and a node with status DONE, which the table maps
  to \<^verbatim>\<open>#00ff00\<close>.
\<close>

theorem render_mapped_status_witness:
  \<open>load_colours_if_needed example_world initial_state =
     (Inr (), snd (load_colours_if_needed example_world initial_state)) \<and>
   hive_colours (snd (load_colours_if_needed example_world initial_state)) (KStr ''DONE'') =
     Some (JStr ''#00ff00'') \<and>
   visit_hivestatus_html example_world [] \<lparr>status = ''DONE'', children = [Text ''All finished'']\<rparr>
       initial_state =
     (Inr [''<span style="background-color:#00ff00">''],
      snd (load_colours_if_needed example_world initial_state)) \<and>
   visit_hivestatus_latex example_world [] \<lparr>status = ''DONE'', children = [Text ''All finished'']\<rparr>
       initial_state =
     (Inr [[CHR 0x0A, CHR 0x5C] @ ''colorbox{#00ff00}{''],
      snd (load_colours_if_needed example_world initial_state)) \<and>
   walkabout_html example_world (\<lambda>s. s) []
       \<lparr>status = ''DONE'', children = [Text ''All finished'']\<rparr> initial_state =
     (Inr [''<span style="background-color:#00ff00">'', ''All finished'', ''</span>''],
      snd (load_colours_if_needed example_world initial_state)) \<and>
   walkabout_latex example_world (\<lambda>s. s) []
       \<lparr>status = ''DONE'', children = [Text ''All finished'']\<rparr> initial_state =
     (Inr [[CHR 0x0A, CHR 0x5C] @ ''colorbox{#00ff00}{'', ''All finished'', ''}''],
      snd (load_colours_if_needed example_world initial_state))\<close>
proof -
  have h1: "load_colours_if_needed example_world initial_state =
     (Inr (), snd (load_colours_if_needed example_world initial_state))"
    by (simp add: example_load)
  have h2: "hive_colours (snd (load_colours_if_needed example_world initial_state))
      (KStr (status \<lparr>status = ''DONE'', children = [Text ''All finished'']\<rparr>)) =
     Some (JStr ''#00ff00'')"
    by (simp add: example_load)
  from render_mapped_status [OF h1 h2, of "[]" "[]" "\<lambda>s. s"] h1 h2
  show ?thesis by simp
qed

text \<open>
  C7. Let the load inside the callback succeed and the table it leaves have no entry
  for the status of the node. Then both visit callbacks raise KeyError and append
  nothing: there is no default colour.
\<close>

theorem render_unmapped_status_fails:
  assumes "load_colours_if_needed w st = (Inr (), st1)"
    and "hive_colours st1 (KStr (status node)) = None"
  shows "visit_hivestatus_html w body node st = (Inl KeyError, st1) \<and>
         visit_hivestatus_latex w body node st = (Inl KeyError, st1)"
  using assms by (simp add: visit_hivestatus_html_def visit_hivestatus_latex_def)

text \<open>
  C7 on the example configuration and a node with status FAILED, which is a scalar
  in the configuration and so not in the table.
\<close>

theorem render_unmapped_status_fails_witness:
  "load_colours_if_needed example_world initial_state =
     (Inr (), snd (load_colours_if_needed example_world initial_state)) \<and>
   hive_colours (snd (load_colours_if_needed example_world initial_state)) (KStr ''FAILED'') = None \<and>
   visit_hivestatus_html example_world [] \<lparr>status = ''FAILED'', children = [Text ''broken'']\<rparr>
       initial_state =
     (Inl KeyError, snd (load_colours_if_needed example_world initial_state)) \<and>
   visit_hivestatus_latex example_world [] \<lparr>status = ''FAILED'', children = [Text ''broken'']\<rparr>
       initial_state =
     (Inl KeyError, snd (load_colours_if_needed example_world initial_state))"
proof -
  have h1: "load_colours_if_needed example_world initial_state =
     (Inr (), snd (load_colours_if_needed example_world initial_state))"
    by (simp add: example_load)
  have h2: "hive_colours (snd (load_colours_if_needed example_world initial_state))
      (KStr (status \<lparr>status = ''FAILED'', children = [Text ''broken'']\<rparr>)) = None"
    by (simp add: example_load)
  from render_unmapped_status_fails [OF h1 h2, of "[]"] h1 h2
  show ?thesis by simp
qed

text \<open>
  C9. Both visit callbacks call the load before they look the status up. When the
  load raises, the callback raises the same exception and looks nothing up. When a
  callback returns a body, then during this call the configuration file was opened
  and parsed, both loops ran to their end on the table, and the status was found in
  the table they left.
\<close>

theorem render_entry_loads_first:
  "(\<forall>e st1. load_colours_if_needed w st = (Inl e, st1) \<longrightarrow>
      visit_hivestatus_html w body node st = (Inl e, st1) \<and>
      visit_hivestatus_latex w body node st = (Inl e, st1)) \<and>
   (\<forall>b st'. visit_hivestatus_html w body node st = (Inr b, st') \<or>
            visit_hivestatus_latex w body node st = (Inr b, st') \<longrightarrow>
      (\<exists>root fc conf.
         environ w ''EHIVE_ROOT_DIR'' = Some root \<and>
         files w (root @ path_sep w @ ''hive_config.json'') = Some fc \<and>
         json_load w fc = Inr conf \<and>
         load_tables conf (hive_colours st) = (Inr (), hive_colours st') \<and>
         opened st' = opened st @ [root @ path_sep w @ ''hive_config.json''] \<and>
         hive_colours st' (KStr (status node)) \<noteq> None))"
proof (intro conjI allI impI)
  fix e st1
  assume "load_colours_if_needed w st = (Inl e, st1)"
  then show "visit_hivestatus_html w body node st = (Inl e, st1)"
    and "visit_hivestatus_latex w body node st = (Inl e, st1)"
    by (simp_all add: visit_hivestatus_html_def visit_hivestatus_latex_def)
next
  fix b st'
  assume "visit_hivestatus_html w body node st = (Inr b, st') \<or>
          visit_hivestatus_latex w body node st = (Inr b, st')"
  then have "load_colours_if_needed w st = (Inr (), st') \<and>
      hive_colours st' (KStr (status node)) \<noteq> None"
    by (auto simp: visit_hivestatus_html_def visit_hivestatus_latex_def
        split: prod.splits sum.splits option.splits)
  with load_success_inversion [of w st "()" st']
  show "\<exists>root fc conf.
         environ w ''EHIVE_ROOT_DIR'' = Some root \<and>
         files w (root @ path_sep w @ ''hive_config.json'') = Some fc \<and>
         json_load w fc = Inr conf \<and>
         load_tables conf (hive_colours st) = (Inr (), hive_colours st') \<and>
         opened st' = opened st @ [root @ path_sep w @ ''hive_config.json''] \<and>
         hive_colours st' (KStr (status node)) \<noteq> None"
    by blast
qed

text \<open>
  C9 on a world without the variable, where both callbacks raise the KeyError of the
  load, and on the example configuration from the empty table, where the HTML
  callback finds READY.
\<close>

theorem render_entry_loads_first_witness:
  \<open>load_colours_if_needed (example_world\<lparr>environ := Map.empty\<rparr>) initial_state =
     (Inl KeyError, initial_state) \<and>
   visit_hivestatus_html (example_world\<lparr>environ := Map.empty\<rparr>) []
       \<lparr>status = ''READY'', children = [Text ''waiting'']\<rparr> initial_state =
     (Inl KeyError, initial_state) \<and>
   visit_hivestatus_latex (example_world\<lparr>environ := Map.empty\<rparr>) []
       \<lparr>status = ''READY'', children = [Text ''waiting'']\<rparr> initial_state =
     (Inl KeyError, initial_state) \<and>
   visit_hivestatus_html example_world [] \<lparr>status = ''READY'', children = [Text ''waiting'']\<rparr>
       initial_state =
     (Inr [''<span style="background-color:blue">''],
      snd (load_colours_if_needed example_world initial_state)) \<and>
   (\<exists>root fc conf.
      environ example_world ''EHIVE_ROOT_DIR'' = Some root \<and>
      files example_world (root @ path_sep example_world @ ''hive_config.json'') = Some fc \<and>
      json_load example_world fc = Inr conf \<and>
      load_tables conf (hive_colours initial_state) =
        (Inr (), hive_colours (snd (load_colours_if_needed example_world initial_state))) \<and>
      opened (snd (load_colours_if_needed example_world initial_state)) =
        opened initial_state @ [root @ path_sep example_world @ ''hive_config.json''] \<and>
      hive_colours (snd (load_colours_if_needed example_world initial_state)) (KStr ''READY'') \<noteq>
        None)\<close>
proof -
  let ?node = "\<lparr>status = ''READY'', children = [Text ''waiting'']\<rparr>"
  let ?w0 = "example_world\<lparr>environ := Map.empty\<rparr>"
  have h1: "load_colours_if_needed ?w0 initial_state = (Inl KeyError, initial_state)"
    by (simp add: load_colours_if_needed_def read_config_def example_world_def)
  have h2: \<open>visit_hivestatus_html example_world [] ?node initial_state =
     (Inr [''<span style="background-color:blue">''],
      snd (load_colours_if_needed example_world initial_state))\<close>
    by (simp add: visit_hivestatus_html_def example_load percent_s_def)
  from render_entry_loads_first [of ?w0 initial_state "[]" ?node] h1
  have f: "visit_hivestatus_html ?w0 [] ?node initial_state = (Inl KeyError, initial_state) \<and>
     visit_hivestatus_latex ?w0 [] ?node initial_state = (Inl KeyError, initial_state)"
    by blast
  from render_entry_loads_first [of example_world initial_state "[]" ?node] h2
  have "\<exists>root fc conf.
      environ example_world ''EHIVE_ROOT_DIR'' = Some root \<and>
      files example_world (root @ path_sep example_world @ ''hive_config.json'') = Some fc \<and>
      json_load example_world fc = Inr conf \<and>
      load_tables conf (hive_colours initial_state) =
        (Inr (), hive_colours (snd (load_colours_if_needed example_world initial_state))) \<and>
      opened (snd (load_colours_if_needed example_world initial_state)) =
        opened initial_state @ [root @ path_sep example_world @ ''hive_config.json''] \<and>
      hive_colours (snd (load_colours_if_needed example_world initial_state))
        (KStr (status ?node)) \<noteq> None"
    by blast
  then have "\<exists>root fc conf.
      environ example_world ''EHIVE_ROOT_DIR'' = Some root \<and>
      files example_world (root @ path_sep example_world @ ''hive_config.json'') = Some fc \<and>
      json_load example_world fc = Inr conf \<and>
      load_tables conf (hive_colours initial_state) =
        (Inr (), hive_colours (snd (load_colours_if_needed example_world initial_state))) \<and>
      opened (snd (load_colours_if_needed example_world initial_state)) =
        opened initial_state @ [root @ path_sep example_world @ ''hive_config.json''] \<and>
      hive_colours (snd (load_colours_if_needed example_world initial_state))
        (KStr ''READY'') \<noteq> None"
    by simp
  with h1 h2 f show ?thesis by blast
qed

end
